theory Spec2Isabelle
  imports Complex_Main "HOL-Library.Word"
begin

unbundle bit_operations_syntax

section \<open>Conventions of the embedding\<close>

text \<open>
  The firmware runs on a 32-bit microcontroller. Its integer types are modelled as words of
  their width: \<open>uint8_t\<close> as \<open>8 word\<close>, \<open>uint16_t\<close> as \<open>16 word\<close>, \<open>uint32_t\<close> and
  \<open>unsigned long\<close> as \<open>32 word\<close>, so subtraction wraps as in C.

  Values of the C types \<open>float\<close> and \<open>double\<close> are modelled as real numbers, and the
  arithmetic is read in two ways. In the first reading the operations are exact. It is used
  for the properties that the rounding of the machine arithmetic does not change: which
  branch is taken, which calls are made, the bound on the returned speed. In the second
  reading every operation is followed by the rounding of its C type, binary32 for \<open>float\<close>
  and binary64 for \<open>double\<close>, to the nearest value with ties to even. It is used for the
  two properties that depend on rounding: the speed returned for a zero torque, and the
  deadband test on the difference of two speeds. Overflow to infinity and NaN are outside
  both readings.

  Pin levels are booleans, \<open>LOW\<close> being \<open>False\<close> and \<open>HIGH\<close> being \<open>True\<close>.
\<close>

abbreviation LOW :: bool where "LOW \<equiv> False"
abbreviation HIGH :: bool where "HIGH \<equiv> True"

section \<open>Driver: the DRV8308 peripheral (Driver.h, Driver.cpp)\<close>

text \<open>
  What a method of the driver does to the outside world is a list of events, in program
  order: SPI bus calls, pin writes, busy-wait delays and the tone written to the LEDC channel.
  The start of a transaction carries its \<open>SPISettings\<close>: clock, bit order and mode number.
\<close>

datatype bit_order = LSBFIRST | MSBFIRST

datatype hw_event =
    SpiBeginTransaction nat bit_order nat
  | SpiTransfer "8 word"
  | SpiEndTransaction
  | DelayMicroseconds nat
  | DigitalWrite "8 word" bool
  | LedcWriteTone "8 word" real

text \<open>The pin numbers both constructors assign.\<close>

definition PIN_SCS :: "8 word" where "PIN_SCS = 5"
definition PIN_BRAKE :: "8 word" where "PIN_BRAKE = 12"
definition PIN_DIR :: "8 word" where "PIN_DIR = 16"

definition scs_begin :: "hw_event list" where
  "scs_begin = [DigitalWrite PIN_SCS HIGH]"

definition scs_end :: "hw_event list" where
  "scs_end = [DigitalWrite PIN_SCS LOW]"

definition brake :: "hw_event list" where
  "brake = [DigitalWrite PIN_BRAKE HIGH]"

definition unbrake :: "hw_event list" where
  "unbrake = [DigitalWrite PIN_BRAKE LOW]"

definition set_dir :: "bool \<Rightarrow> hw_event list" where
  "set_dir direction = [DigitalWrite PIN_DIR direction]"

text \<open>
  \<open>drv_write\<close>: the header expression \<open>(0u << 7) | (addr7 & 0x7F)\<close> is evaluated in
  \<open>unsigned int\<close> and narrowed to the byte \<open>transfer\<close> takes; the two data bytes are the
  casts \<open>(uint8_t)(message >> 8)\<close> and \<open>(uint8_t)(message & 0xFF)\<close>.
\<close>

definition drv_write :: "8 word \<Rightarrow> 16 word \<Rightarrow> hw_event list" where
  "drv_write addr7 message =
     [SpiBeginTransaction 10000 MSBFIRST 0] @
     scs_begin @
     [DelayMicroseconds 1,
      SpiTransfer (ucast (push_bit 7 (0 :: 32 word) OR (ucast addr7 AND 0x7F))),
      SpiTransfer (ucast (drop_bit 8 message)),
      SpiTransfer (ucast (message AND 0xFF)),
      DelayMicroseconds 1] @
     scs_end @
     [SpiEndTransaction,
      DelayMicroseconds 5]"

text \<open>\<open>cmd_speed_PWM\<close>: the tone on LEDC channel 0 is the electrical frequency, RPM / 15.\<close>

definition cmd_speed_PWM :: "real \<Rightarrow> hw_event list" where
  "cmd_speed_PWM SPEED_CMD = (let freq = SPEED_CMD / 15 in [LedcWriteTone 0 freq])"

text \<open>The bytes a list of events puts on the bus, in order.\<close>

fun transferred :: "hw_event list \<Rightarrow> 8 word list" where
  "transferred [] = []"
| "transferred (SpiTransfer b # es) = b # transferred es"
| "transferred (e # es) = transferred es"

section \<open>Speed estimator (task_readActual in CtrlTasks.cpp)\<close>

text \<open>
  One pass of the loop body of \<open>task_readActual\<close>. The inputs are the local \<open>last_time\<close>,
  the timestamp \<open>edge_time.get()\<close> returns and the level \<open>Peripheral.get_dir()\<close> reads.
  The result is the new \<open>last_time\<close> and the value passed to \<open>speed_actual.put\<close>, or
  \<open>None\<close> when the pass leaves the loop body through \<open>continue\<close> before the put.
\<close>

definition readActual_iter :: "32 word \<Rightarrow> 32 word \<Rightarrow> bool \<Rightarrow> 32 word \<times> real option" where
  "readActual_iter last_time current_time direction =
     (let dt_us = current_time - last_time in
      if dt_us = 0 then (current_time, None)
      else
        let frequency = 1 / (real (unat dt_us) / 1000000);
            rpm = (if direction = LOW then frequency * 15 else frequency * (- 15))
        in (current_time, Some rpm))"

text \<open>
  The share \<open>speed_actual\<close> holds one value; \<open>put\<close> overwrites it. After a pass it holds
  the value put, or what it held before when nothing was put.
\<close>

definition speed_actual_after :: "real \<Rightarrow> real option \<Rightarrow> real" where
  "speed_actual_after held written = (case written of None \<Rightarrow> held | Some rpm \<Rightarrow> rpm)"

section \<open>Torque integrator (Controller.h, Controller.cpp, task_calcSetpoint)\<close>

text \<open>
  The mutable members of the class. The third member, \<open>J\<close>, is \<open>const\<close> and the only
  constructor gives it the value 0.001712, so it is a constant of the model.
\<close>

record Controller =
  last_update_ms :: "32 word"
  omega_rad_s :: real

definition J :: real where
  "J = 0.001712"

definition Controller_new :: Controller where
  "Controller_new = \<lparr>last_update_ms = 0, omega_rad_s = 0\<rparr>"

text \<open>
  The first part of \<open>calculate_omega\<close>: the integration step \<open>dt_s\<close>, from the value
  \<open>now_ms\<close> that \<open>millis()\<close> returns and the member \<open>last_update_ms\<close>. The difference is
  taken in \<open>unsigned long\<close> and wraps.
\<close>

definition dt_s :: "32 word \<Rightarrow> 32 word \<Rightarrow> real" where
  "dt_s now_ms last_update =
     (let dt = real (unat (now_ms - last_update)) / 1000 in
      if dt \<le> 0 then 0.001
      else if dt \<ge> 1 then 1
      else dt)"

text \<open>
  \<open>calculate_omega\<close>. The macro \<open>PI\<close> comes from the Arduino core, which is not part of
  the repository: it is the parameter \<open>PI\<close>. The other inputs are the object, the value of
  \<open>millis()\<close>, the value \<open>speed_actual.get()\<close> returns and the torque command. The result
  is the returned RPM and the updated object.
\<close>

definition calculate_omega ::
  "real \<Rightarrow> Controller \<Rightarrow> 32 word \<Rightarrow> real \<Rightarrow> real \<Rightarrow> real \<times> Controller" where
  "calculate_omega PI c now_ms actual torque_cmd =
     (let step = dt_s now_ms (last_update_ms c);
          c1 = c\<lparr>last_update_ms := now_ms\<rparr>;
          alpha = torque_cmd / J;
          torque_add = alpha * step;
          omega = torque_add + actual * (2 * PI / 60);
          omega_max_rad_s = 2 * PI * 2500 / 60;
          omega1 = (if omega > omega_max_rad_s then omega_max_rad_s else omega);
          omega2 = (if omega1 < - omega_max_rad_s then - omega_max_rad_s else omega1);
          c2 = c1\<lparr>omega_rad_s := omega2\<rparr>;
          omega_rpm = omega_rad_s c2 * (60 / (2 * PI))
      in (omega_rpm, c2))"

text \<open>
  One pass of \<open>task_calcSetpoint\<close>: the torque taken from \<open>torque_cmd\<close> is integrated and
  the result is put on the queue \<open>speed_cmd\<close>. The first component is the value put.
\<close>

definition calcSetpoint_iter ::
  "real \<Rightarrow> Controller \<Rightarrow> 32 word \<Rightarrow> real \<Rightarrow> real \<Rightarrow> real \<times> Controller" where
  "calcSetpoint_iter PI c now_ms actual torque =
     (let (omega, c') = calculate_omega PI c now_ms actual torque in (omega, c'))"

section \<open>Speed control state machine (task_speedControl in CtrlTasks.cpp)\<close>

definition sign :: "real \<Rightarrow> int" where
  "sign x = (if x \<ge> 0 then 1 else - 1)"

text \<open>
  The calls one pass of the loop makes on the driver and on the scheduler, in program order.
\<close>

datatype call =
    Call_cmd_speed_PWM real
  | Call_brake
  | Call_unbrake
  | Call_set_dir bool
  | Call_vTaskDelay nat

text \<open>What each call does to the hardware; the scheduler delay touches none of it.\<close>

fun events_of :: "call \<Rightarrow> hw_event list" where
  "events_of (Call_cmd_speed_PWM x) = cmd_speed_PWM x"
| "events_of Call_brake = brake"
| "events_of Call_unbrake = unbrake"
| "events_of (Call_set_dir d) = set_dir d"
| "events_of (Call_vTaskDelay n) = []"

text \<open>
  The local variables of the task that live across passes of the loop. The states are the
  numbers of the code: 0 idle, 1 accelerating, 2 decelerating, 3 crossing from negative to
  positive (direction pin to LOW), 4 crossing from positive to negative (pin to HIGH).
\<close>

record ctrl =
  speed_state :: "8 word"
  speed_command :: real
  speed_real :: real
  direction :: bool

definition speedControl_init :: "ctrl \<times> call list" where
  "speedControl_init =
     (\<lparr>speed_state = 0, speed_command = 0, speed_real = 0, direction = LOW\<rparr>,
      [Call_set_dir LOW])"

text \<open>
  One pass of the \<open>while\<close> loop. \<open>actual\<close> is what \<open>speed_actual.get()\<close> returns,
  \<open>dir_pin\<close> what \<open>Peripheral.get_dir()\<close> reads, and \<open>cmd_in\<close> what \<open>speed_cmd.get()\<close>
  returns; the queue is read in state 0 only, where the call blocks until a command is there,
  so a pass in state 0 is the pass that a command's arrival completes.
\<close>

definition speedControl_iter :: "ctrl \<Rightarrow> real \<Rightarrow> bool \<Rightarrow> real \<Rightarrow> ctrl \<times> call list" where
  "speedControl_iter c0 actual dir_pin cmd_in =
     (let c = c0\<lparr>speed_real := actual, direction := dir_pin\<rparr> in
      if speed_state c = 0 then
        (let c = c\<lparr>speed_command := cmd_in\<rparr> in
         if speed_command c > speed_real c then
           (if sign (speed_command c) = sign (speed_real c) then
              (if direction c = LOW then
                 (c\<lparr>speed_state := 1\<rparr>, [Call_cmd_speed_PWM \<bar>speed_command c\<bar>])
               else
                 (c\<lparr>speed_state := 2\<rparr>, [Call_cmd_speed_PWM 0, Call_brake]))
            else
              (c\<lparr>speed_state := 2\<rparr>, [Call_cmd_speed_PWM 0, Call_brake]))
         else if speed_command c < speed_real c then
           (if sign (speed_command c) = sign (speed_real c) then
              (if direction c = LOW then
                 (c\<lparr>speed_state := 2\<rparr>, [Call_cmd_speed_PWM 0, Call_brake])
               else
                 (c\<lparr>speed_state := 1\<rparr>, [Call_cmd_speed_PWM \<bar>speed_command c\<bar>]))
            else
              (c\<lparr>speed_state := 2\<rparr>, [Call_cmd_speed_PWM 0, Call_brake]))
         else (c, []))
      else if speed_state c = 1 then
        (if \<bar>speed_real c - speed_command c\<bar> \<le> 20 then (c\<lparr>speed_state := 0\<rparr>, [])
         else (c, [Call_vTaskDelay 10]))
      else if speed_state c = 2 then
        (let (c', calls) =
           (if sign (speed_command c) = sign (speed_real c) then
              (if \<bar>speed_real c - speed_command c\<bar> \<le> 20 then
                 (c\<lparr>speed_state := 0\<rparr>,
                  [Call_unbrake, Call_cmd_speed_PWM \<bar>speed_command c\<bar>])
               else (c, []))
            else
              (if direction c = HIGH then
                 (if \<bar>speed_real c\<bar> < 20 then (c\<lparr>speed_state := 3\<rparr>, []) else (c, []))
               else
                 (if \<bar>speed_real c\<bar> < 20 then (c\<lparr>speed_state := 4\<rparr>, []) else (c, []))))
         in (c', calls @ [Call_vTaskDelay 10]))
      else if speed_state c = 3 then
        (c\<lparr>direction := LOW, speed_state := 1\<rparr>,
         [Call_set_dir LOW, Call_unbrake, Call_cmd_speed_PWM \<bar>speed_command c\<bar>])
      else if speed_state c = 4 then
        (c\<lparr>direction := HIGH, speed_state := 1\<rparr>,
         [Call_set_dir HIGH, Call_unbrake, Call_cmd_speed_PWM \<bar>speed_command c\<bar>])
      else (c, []))"

text \<open>
  Consecutive passes of the loop, one per input triple (actual speed, direction pin, command
  received): the state after each pass and the calls the pass made.
\<close>

fun speedControl_trace :: "ctrl \<Rightarrow> (real \<times> bool \<times> real) list \<Rightarrow> (ctrl \<times> call list) list" where
  "speedControl_trace c [] = []"
| "speedControl_trace c ((actual, dir_pin, cmd_in) # ins) =
     (let r = speedControl_iter c actual dir_pin cmd_in in r # speedControl_trace (fst r) ins)"

section \<open>Binary floating-point arithmetic\<close>

text \<open>
  Rounding of a real number to the nearest integer, ties to the even one.
\<close>

definition round_even :: "real \<Rightarrow> int" where
  "round_even y =
     (let f = \<lfloor>y\<rfloor> in
      if y - of_int f < 1 / 2 then f
      else if y - of_int f > 1 / 2 then f + 1
      else if even f then f else f + 1)"

text \<open>
  Rounding to a binary format with \<open>p\<close> significant bits and least normal exponent
  \<open>emin\<close>: the result is the multiple of the unit in the last place nearest to \<open>x\<close>, where
  the unit is \<open>2 ^ (e - p + 1)\<close> for \<open>x\<close> in the binade \<open>2 ^ e \<le> \<bar>x\<bar> < 2 ^ (e + 1)\<close>, and
  that of the binade \<open>emin\<close> below it (the subnormal numbers). The exponent is not bounded
  above.
\<close>

definition fp_round :: "nat \<Rightarrow> int \<Rightarrow> real \<Rightarrow> real" where
  "fp_round p emin x =
     (if x = 0 then 0
      else
        let e = max \<lfloor>log 2 \<bar>x\<bar>\<rfloor> emin;
            u = 2 powr of_int (e - int p + 1)
        in u * of_int (round_even (x / u)))"

definition f32 :: "real \<Rightarrow> real" where "f32 = fp_round 24 (- 126)"
definition f64 :: "real \<Rightarrow> real" where "f64 = fp_round 53 (- 1022)"

section \<open>The integrator and the state machine in binary arithmetic\<close>

text \<open>
  The macro \<open>PI\<close> is defined by the Arduino core, outside the repository, as a literal of
  type \<open>double\<close>. Where a property needs its value, the value is the binary64 number
  nearest to the circle constant, \<open>884279719003555 / 2 ^ 48\<close> (bit pattern
  0x400921FB54442D18).
\<close>

definition PI_double :: real where
  "PI_double = 884279719003555 / 281474976710656"

text \<open>
  The member \<open>J\<close> is a \<open>const float\<close> initialised from the \<open>double\<close> literal 0.001712.
\<close>

definition J_fp :: real where
  "J_fp = f32 (f64 0.001712)"

text \<open>
  \<open>dt_s\<close> in binary arithmetic: the \<open>unsigned long\<close> difference is converted to
  \<open>float\<close> and divided by \<open>1000.0f\<close>; the floor is the literal \<open>0.001f\<close>.
\<close>

definition dt_s_fp :: "32 word \<Rightarrow> 32 word \<Rightarrow> real" where
  "dt_s_fp now_ms last_update =
     (let dt = f32 (f32 (real (unat (now_ms - last_update))) / 1000) in
      if dt \<le> 0 then f32 0.001
      else if dt \<ge> 1 then 1
      else dt)"

text \<open>
  \<open>calculate_omega\<close> in binary arithmetic. \<open>alpha\<close> and \<open>torque_add\<close> are \<open>float\<close>
  operations. Every expression that contains \<open>PI\<close> is evaluated in \<open>double\<close>, its
  \<open>float\<close> operands being promoted: \<open>2.0f * PI / 60.0f\<close>, the product with the actual
  speed, the sum with \<open>torque_add\<close>, \<open>2.0f * PI * 2500.0f / 60.0f\<close>, \<open>60.0f / (2.0f * PI)\<close>
  and the final product. The result is rounded to \<open>float\<close> where it is stored in the
  \<open>float\<close> variables \<open>omega_rad_s\<close>, \<open>omega_max_rad_s\<close> and \<open>omega_rpm\<close>.
\<close>

definition calculate_omega_fp ::
  "real \<Rightarrow> Controller \<Rightarrow> 32 word \<Rightarrow> real \<Rightarrow> real \<Rightarrow> real \<times> Controller" where
  "calculate_omega_fp PI c now_ms actual torque_cmd =
     (let step = dt_s_fp now_ms (last_update_ms c);
          c1 = c\<lparr>last_update_ms := now_ms\<rparr>;
          alpha = f32 (torque_cmd / J_fp);
          torque_add = f32 (alpha * step);
          omega = f32 (f64 (torque_add + f64 (actual * f64 (f64 (2 * PI) / 60))));
          omega_max_rad_s = f32 (f64 (f64 (f64 (2 * PI) * 2500) / 60));
          omega1 = (if omega > omega_max_rad_s then omega_max_rad_s else omega);
          omega2 = (if omega1 < - omega_max_rad_s then - omega_max_rad_s else omega1);
          c2 = c1\<lparr>omega_rad_s := omega2\<rparr>;
          omega_rpm = f32 (f64 (omega_rad_s c2 * f64 (60 / f64 (2 * PI))))
      in (omega_rpm, c2))"

definition calcSetpoint_iter_fp ::
  "real \<Rightarrow> Controller \<Rightarrow> 32 word \<Rightarrow> real \<Rightarrow> real \<Rightarrow> real \<times> Controller" where
  "calcSetpoint_iter_fp PI c now_ms actual torque =
     (let (omega, c') = calculate_omega_fp PI c now_ms actual torque in (omega, c'))"

text \<open>
  One pass of the loop of \<open>task_speedControl\<close> in binary arithmetic. The only arithmetic
  of the loop is the \<open>float\<close> subtraction in the deadband tests of states 1 and 2, which
  is rounded; comparisons, \<open>sign\<close> and \<open>fabsf\<close> are exact on \<open>float\<close> values.
\<close>

definition speedControl_iter_fp :: "ctrl \<Rightarrow> real \<Rightarrow> bool \<Rightarrow> real \<Rightarrow> ctrl \<times> call list" where
  "speedControl_iter_fp c0 actual dir_pin cmd_in =
     (let c = c0\<lparr>speed_real := actual, direction := dir_pin\<rparr> in
      if speed_state c = 0 then
        (let c = c\<lparr>speed_command := cmd_in\<rparr> in
         if speed_command c > speed_real c then
           (if sign (speed_command c) = sign (speed_real c) then
              (if direction c = LOW then
                 (c\<lparr>speed_state := 1\<rparr>, [Call_cmd_speed_PWM \<bar>speed_command c\<bar>])
               else
                 (c\<lparr>speed_state := 2\<rparr>, [Call_cmd_speed_PWM 0, Call_brake]))
            else
              (c\<lparr>speed_state := 2\<rparr>, [Call_cmd_speed_PWM 0, Call_brake]))
         else if speed_command c < speed_real c then
           (if sign (speed_command c) = sign (speed_real c) then
              (if direction c = LOW then
                 (c\<lparr>speed_state := 2\<rparr>, [Call_cmd_speed_PWM 0, Call_brake])
               else
                 (c\<lparr>speed_state := 1\<rparr>, [Call_cmd_speed_PWM \<bar>speed_command c\<bar>]))
            else
              (c\<lparr>speed_state := 2\<rparr>, [Call_cmd_speed_PWM 0, Call_brake]))
         else (c, []))
      else if speed_state c = 1 then
        (if \<bar>f32 (speed_real c - speed_command c)\<bar> \<le> 20 then (c\<lparr>speed_state := 0\<rparr>, [])
         else (c, [Call_vTaskDelay 10]))
      else if speed_state c = 2 then
        (let (c', calls) =
           (if sign (speed_command c) = sign (speed_real c) then
              (if \<bar>f32 (speed_real c - speed_command c)\<bar> \<le> 20 then
                 (c\<lparr>speed_state := 0\<rparr>,
                  [Call_unbrake, Call_cmd_speed_PWM \<bar>speed_command c\<bar>])
               else (c, []))
            else
              (if direction c = HIGH then
                 (if \<bar>speed_real c\<bar> < 20 then (c\<lparr>speed_state := 3\<rparr>, []) else (c, []))
               else
                 (if \<bar>speed_real c\<bar> < 20 then (c\<lparr>speed_state := 4\<rparr>, []) else (c, []))))
         in (c', calls @ [Call_vTaskDelay 10]))
      else if speed_state c = 3 then
        (c\<lparr>direction := LOW, speed_state := 1\<rparr>,
         [Call_set_dir LOW, Call_unbrake, Call_cmd_speed_PWM \<bar>speed_command c\<bar>])
      else if speed_state c = 4 then
        (c\<lparr>direction := HIGH, speed_state := 1\<rparr>,
         [Call_set_dir HIGH, Call_unbrake, Call_cmd_speed_PWM \<bar>speed_command c\<bar>])
      else (c, []))"

fun speedControl_trace_fp :: "ctrl \<Rightarrow> (real \<times> bool \<times> real) list \<Rightarrow> (ctrl \<times> call list) list" where
  "speedControl_trace_fp c [] = []"
| "speedControl_trace_fp c ((actual, dir_pin, cmd_in) # ins) =
     (let r = speedControl_iter_fp c actual dir_pin cmd_in in r # speedControl_trace_fp (fst r) ins)"

section \<open>Properties of the driver\<close>

lemma x7F_mask: "(0x7F :: 32 word) = mask 7"
  by (simp add: mask_eq_exp_minus_1)

lemma xFF_mask: "(0xFF :: 16 word) = mask 8"
  by (simp add: mask_eq_exp_minus_1)

lemma header_write_bit:
  "\<not> bit (ucast (push_bit 7 (0 :: 32 word) OR (ucast (addr7 :: 8 word) AND 0x7F)) :: 8 word) 7"
  unfolding x7F_mask by (simp add: bit_simps)

lemma header_address:
  "take_bit 7 (ucast (push_bit 7 (0 :: 32 word) OR (ucast (addr7 :: 8 word) AND 0x7F)) :: 8 word)
     = take_bit 7 addr7"
  unfolding x7F_mask by (rule bit_word_eqI) (auto simp add: bit_simps)

lemma data_bytes:
  "(word_cat (ucast (drop_bit 8 message) :: 8 word) (ucast (message AND 0xFF) :: 8 word) :: 16 word)
     = (message :: 16 word)"
  unfolding xFF_mask by (rule bit_word_eqI) (auto simp add: bit_simps)

lemma transferred_drv_write:
  "transferred (drv_write addr7 message) =
     [ucast (push_bit 7 (0 :: 32 word) OR (ucast addr7 AND 0x7F)),
      ucast (drop_bit 8 message), ucast (message AND 0xFF)]"
  by (simp add: drv_write_def scs_begin_def scs_end_def)

text \<open>
  C8. Protocol framing of the register write: \<open>drv_write 0x03 0xFC2\<close> performs, in order,
  the start of the transaction (most significant bit first), chip select high, a 1
  microsecond setup delay, the three transfers 0x03, 0x0F, 0xC2, a 1 microsecond hold delay,
  chip select low, the end of the transaction and a 5 microsecond recovery delay. For every address and value the bus carries
  exactly three bytes: a header whose bit 7 is clear and whose low seven bits are those of the
  address, then the high byte of the value, then its low byte.
\<close>

theorem drv_write_framing:
  "drv_write 0x03 0xFC2 =
     [SpiBeginTransaction 10000 MSBFIRST 0, DigitalWrite PIN_SCS HIGH, DelayMicroseconds 1,
      SpiTransfer 0x03, SpiTransfer 0x0F, SpiTransfer 0xC2,
      DelayMicroseconds 1, DigitalWrite PIN_SCS LOW, SpiEndTransaction,
      DelayMicroseconds 5]
   \<and> (\<exists>h m l. transferred (drv_write addr7 message) = [h, m, l]
        \<and> \<not> bit h 7 \<and> take_bit 7 h = take_bit 7 addr7
        \<and> (word_cat m l :: 16 word) = message)"
proof
  show "drv_write 0x03 0xFC2 =
     [SpiBeginTransaction 10000 MSBFIRST 0, DigitalWrite PIN_SCS HIGH, DelayMicroseconds 1,
      SpiTransfer 0x03, SpiTransfer 0x0F, SpiTransfer 0xC2,
      DelayMicroseconds 1, DigitalWrite PIN_SCS LOW, SpiEndTransaction,
      DelayMicroseconds 5]"
    by (simp add: drv_write_def scs_begin_def scs_end_def)
next
  show "\<exists>h m l. transferred (drv_write addr7 message) = [h, m, l]
        \<and> \<not> bit h 7 \<and> take_bit 7 h = take_bit 7 addr7
        \<and> (word_cat m l :: 16 word) = message"
    using transferred_drv_write header_write_bit header_address data_bytes by blast
qed

section \<open>Properties of the speed estimator\<close>

text \<open>
  C1, as amended. With an interval of 6000 microseconds between two edges the electrical
  frequency is 1 / 0.006 = 166.67 Hz and the speed put into the share is fifteen times that:
  +2500 RPM when the direction pin reads LOW, -2500 RPM when it reads HIGH. This holds for
  every earlier timestamp, also across the wrap of the 32-bit microsecond counter.
\<close>

theorem readActual_speed_6000us:
  "readActual_iter last_time (last_time + 6000) LOW = (last_time + 6000, Some 2500)
   \<and> readActual_iter last_time (last_time + 6000) HIGH = (last_time + 6000, Some (- 2500))"
  by (simp add: readActual_iter_def)

text \<open>
  The figure of 166.67 for this interval is the frequency in hertz and not the published
  speed: with timestamps 0 and 6000 the task publishes 2500 RPM and -2500 RPM, which are
  neither 166.67 nor -166.67 nor anywhere near them.
\<close>

theorem readActual_speed_6000us_not_166:
  "snd (readActual_iter 0 6000 LOW) = Some 2500
   \<and> snd (readActual_iter 0 6000 HIGH) = Some (- 2500)
   \<and> snd (readActual_iter 0 6000 LOW) \<noteq> Some 166.67
   \<and> snd (readActual_iter 0 6000 HIGH) \<noteq> Some (- 166.67)
   \<and> \<bar>2500 - 500 / 3\<bar> > (2333 :: real)"
  by (simp add: readActual_iter_def)

text \<open>
  C5. When the new timestamp equals the previous one the pass puts nothing into the share:
  the share holds afterwards what it held before, and \<open>last_time\<close> is the new timestamp.
\<close>

theorem readActual_zero_interval:
  "readActual_iter t t dir = (t, None)
   \<and> speed_actual_after held (snd (readActual_iter t t dir)) = held"
  by (simp add: readActual_iter_def speed_actual_after_def)

section \<open>Properties of the rounding\<close>

text \<open>Rounding to an integer moves a number by at most a half, and is monotone at the ties.\<close>

lemma round_even_error: "\<bar>of_int (round_even y) - y\<bar> \<le> 1 / 2"
  unfolding round_even_def Let_def by (auto simp add: abs_if) linarith+

lemma round_even_le_iff:
  assumes "even N"
  shows "round_even y \<le> N \<longleftrightarrow> y \<le> of_int N + 1 / 2"
proof
  assume "round_even y \<le> N"
  then have "of_int (round_even y) \<le> (of_int N :: real)" by simp
  with round_even_error [of y] show "y \<le> of_int N + 1 / 2" by linarith
next
  assume y: "y \<le> of_int N + 1 / 2"
  show "round_even y \<le> N"
  proof (cases "y < of_int N + 1 / 2")
    case True
    have "of_int (round_even y) < (of_int N :: real) + 1"
      using round_even_error [of y] True by linarith
    then have "round_even y < N + 1" by linarith
    then show ?thesis by simp
  next
    case False
    with y have e: "y = of_int N + 1 / 2" by simp
    then have f: "\<lfloor>y\<rfloor> = N" by (simp add: floor_unique)
    show ?thesis unfolding round_even_def Let_def f using e assms by simp
  qed
qed

lemma round_even_ge_iff:
  assumes "even N"
  shows "N \<le> round_even y \<longleftrightarrow> of_int N - 1 / 2 \<le> y"
proof
  assume "N \<le> round_even y"
  then have "(of_int N :: real) \<le> of_int (round_even y)" by simp
  with round_even_error [of y] show "of_int N - 1 / 2 \<le> y" by linarith
next
  assume y: "of_int N - 1 / 2 \<le> y"
  show "N \<le> round_even y"
  proof (cases "of_int N - 1 / 2 < y")
    case True
    have "(of_int N :: real) - 1 < of_int (round_even y)"
      using round_even_error [of y] True by linarith
    then have "N - 1 < round_even y" by linarith
    then show ?thesis by simp
  next
    case False
    with y have e: "y = of_int (N - 1) + 1 / 2" by simp
    then have f: "\<lfloor>y\<rfloor> = N - 1" by (simp add: floor_unique)
    show ?thesis unfolding round_even_def Let_def f using e assms by simp
  qed
qed

lemma log2_bracket:
  assumes "x \<noteq> 0"
  shows "2 powr of_int \<lfloor>log 2 \<bar>x\<bar>\<rfloor> \<le> \<bar>x\<bar>"
    and "\<bar>x\<bar> < 2 powr of_int (\<lfloor>log 2 \<bar>x\<bar>\<rfloor> + 1)"
proof -
  have pos: "0 < \<bar>x\<bar>" using assms by simp
  have "\<lfloor>log 2 \<bar>x\<bar>\<rfloor> = \<lfloor>log 2 \<bar>x\<bar>\<rfloor>" ..
  then have "2 powr of_int \<lfloor>log 2 \<bar>x\<bar>\<rfloor> \<le> \<bar>x\<bar> \<and> \<bar>x\<bar> < 2 powr of_int (\<lfloor>log 2 \<bar>x\<bar>\<rfloor> + 1)"
    using floor_log_eq_powr_iff [OF pos, of 2 "\<lfloor>log 2 \<bar>x\<bar>\<rfloor>"] by simp
  then show "2 powr of_int \<lfloor>log 2 \<bar>x\<bar>\<rfloor> \<le> \<bar>x\<bar>"
    and "\<bar>x\<bar> < 2 powr of_int (\<lfloor>log 2 \<bar>x\<bar>\<rfloor> + 1)" by blast+
qed

lemma fp_round_binade:
  assumes "2 powr of_int e \<le> \<bar>x\<bar>" and "\<bar>x\<bar> < 2 powr of_int (e + 1)" and "emin \<le> e"
  shows "fp_round p emin x =
     2 powr of_int (e - int p + 1) * of_int (round_even (x / 2 powr of_int (e - int p + 1)))"
proof -
  have pos: "0 < \<bar>x\<bar>" using assms(1) by (smt (verit) powr_gt_zero)
  then have nz: "x \<noteq> 0" by auto
  have "\<lfloor>log 2 \<bar>x\<bar>\<rfloor> = e"
    using floor_log_eq_powr_iff [OF pos, of 2 e] assms(1,2) by simp
  then show ?thesis using nz assms(3) by (simp add: fp_round_def Let_def max_def)
qed

lemma fp_round_half_ulp:
  assumes "\<bar>x\<bar> < 2 powr of_int (k + 1)" and "emin \<le> k"
  shows "\<bar>fp_round p emin x - x\<bar> \<le> 2 powr of_int (k - int p)"
proof (cases "x = 0")
  case True
  then show ?thesis by (simp add: fp_round_def)
next
  case False
  define e where "e = max \<lfloor>log 2 \<bar>x\<bar>\<rfloor> emin"
  define u :: real where "u = 2 powr of_int (e - int p + 1)"
  have u0: "0 < u" unfolding u_def by simp
  have r: "fp_round p emin x = u * of_int (round_even (x / u))"
    using False by (simp add: fp_round_def Let_def e_def u_def)
  have "\<bar>of_int (round_even (x / u)) - x / u\<bar> \<le> 1 / 2" by (rule round_even_error)
  then have m: "u * \<bar>of_int (round_even (x / u)) - x / u\<bar> \<le> u * (1 / 2)"
    using u0 by (intro mult_left_mono) auto
  have eq: "u * of_int (round_even (x / u)) - x = u * (of_int (round_even (x / u)) - x / u)"
    using u0 by (simp add: right_diff_distrib)
  have "\<bar>u * of_int (round_even (x / u)) - x\<bar> = u * \<bar>of_int (round_even (x / u)) - x / u\<bar>"
    unfolding eq abs_mult using u0 by simp
  with m have "\<bar>u * of_int (round_even (x / u)) - x\<bar> \<le> u / 2" by simp
  then have b: "\<bar>fp_round p emin x - x\<bar> \<le> u / 2" using r by simp
  have "(2 :: real) powr of_int \<lfloor>log 2 \<bar>x\<bar>\<rfloor> < 2 powr of_int (k + 1)"
    using log2_bracket(1) [OF False] assms(1) by linarith
  then have "\<lfloor>log 2 \<bar>x\<bar>\<rfloor> < k + 1" by simp
  then have "e \<le> k" using assms(2) unfolding e_def by simp
  then have "u \<le> 2 powr of_int (k - int p + 1)" unfolding u_def by simp
  also have "\<dots> = 2 * 2 powr of_int (k - int p)"
  proof -
    have "of_int (k - int p + 1) = 1 + (of_int (k - int p) :: real)" by simp
    then show ?thesis by (simp only: powr_add) simp
  qed
  finally have "u / 2 \<le> 2 powr of_int (k - int p)" by simp
  with b show ?thesis by linarith
qed

lemma fp_round_relative:
  assumes "2 powr of_int emin \<le> \<bar>x\<bar>"
  shows "\<bar>fp_round p emin x - x\<bar> \<le> \<bar>x\<bar> * 2 powr (- of_int (int p))"
proof -
  have pos: "0 < \<bar>x\<bar>" using assms by (smt (verit) powr_gt_zero)
  then have nz: "x \<noteq> 0" by auto
  define e where "e = \<lfloor>log 2 \<bar>x\<bar>\<rfloor>"
  have lo: "2 powr of_int e \<le> \<bar>x\<bar>" and hi: "\<bar>x\<bar> < 2 powr of_int (e + 1)"
    unfolding e_def using log2_bracket [OF nz] by blast+
  have "(2 :: real) powr of_int emin < 2 powr of_int (e + 1)" using assms hi by linarith
  then have em: "emin \<le> e" by simp
  have "\<bar>fp_round p emin x - x\<bar> \<le> 2 powr of_int (e - int p)"
    by (rule fp_round_half_ulp [OF hi em])
  also have "\<dots> = 2 powr of_int e * 2 powr (- of_int (int p))"
    by (simp add: powr_add [symmetric])
  also have "\<dots> \<le> \<bar>x\<bar> * 2 powr (- of_int (int p))"
    using lo by (intro mult_right_mono) auto
  finally show ?thesis .
qed

text \<open>
  Evaluation of a rounding when the unit in the last place \<open>u\<close> of the argument is known.
\<close>

lemma fp_round_eval:
  assumes u: "u = 2 powr of_int k" and k: "emin - int p + 1 \<le> k" and p: "0 < p"
    and lo: "u * 2 ^ (p - 1) \<le> \<bar>x\<bar>" and hi: "\<bar>x\<bar> < u * 2 ^ p"
  shows "fp_round p emin x = u * of_int (round_even (x / u))"
proof -
  define e where "e = k + int p - 1"
  have pw: "(2 :: real) ^ n = 2 powr of_int (int n)" for n
    by (simp add: powr_realpow)
  have a: "u * 2 ^ (p - 1) = 2 powr of_int e"
    unfolding u pw e_def using p by (simp add: powr_add [symmetric] of_nat_diff algebra_simps)
  have b: "u * 2 ^ p = 2 powr of_int (e + 1)"
    unfolding u pw e_def by (simp add: powr_add [symmetric])
  have c: "e - int p + 1 = k" unfolding e_def by simp
  have d: "emin \<le> e" using k unfolding e_def by simp
  have lo': "2 powr of_int e \<le> \<bar>x\<bar>" using lo unfolding a .
  have hi': "\<bar>x\<bar> < 2 powr of_int (e + 1)" using hi unfolding b .
  show ?thesis
    using fp_round_binade [OF lo' hi' d, of p] unfolding c u .
qed


lemma u19: "(1 / 524288 :: real) = 2 powr of_int (- 19)"
  by (simp add: powr_neg_numeral)
lemma u12: "(1 / 4096 :: real) = 2 powr of_int (- 12)"
  by (simp add: powr_neg_numeral)
lemma u15: "(1 / 32768 :: real) = 2 powr of_int (- 15)"
  by (simp add: powr_neg_numeral)
lemma u39: "(1 / 549755813888 :: real) = 2 powr of_int (- 39)"
  by (simp add: powr_neg_numeral)
lemma u41: "(1 / 2199023255552 :: real) = 2 powr of_int (- 41)"
  by (simp add: powr_neg_numeral)
lemma u44: "(1 / 17592186044416 :: real) = 2 powr of_int (- 44)"
  by (simp add: powr_neg_numeral)
lemma u49: "(1 / 562949953421312 :: real) = 2 powr of_int (- 49)"
  by (simp add: powr_neg_numeral)
lemma u50: "(1 / 1125899906842624 :: real) = 2 powr of_int (- 50)"
  by (simp add: powr_neg_numeral)
lemma u56: "(1 / 72057594037927936 :: real) = 2 powr of_int (- 56)"
  by (simp add: powr_neg_numeral)


text \<open>
  The deadband test in binary32: the rounded difference is at most 20 in magnitude exactly
  when the difference itself is at most \<open>20 + 2 ^ - 20\<close>, half a unit in the last place
  above 20.
\<close>

lemma f32_zero: "f32 0 = 0"
  by (simp add: f32_def fp_round_def)
lemma f64_zero: "f64 0 = 0"
  by (simp add: f64_def fp_round_def)

lemma pow2_16: "(16 :: real) = 2 powr of_int (3 + 1)"
  by simp

lemma half_ulp_below_16: "(2 :: real) powr of_int (3 - int 24) \<le> 1"
  by (simp add: powr_neg_numeral)

lemma f32_binade_16:
  assumes "16 \<le> \<bar>x\<bar>" "\<bar>x\<bar> < 32"
  shows "f32 x = 1 / 524288 * of_int (round_even (x / (1 / 524288)))"
  unfolding f32_def using assms by (intro fp_round_eval [OF u19]) simp_all

lemma abs_scaled_le_20:
  fixes r :: int
  shows "\<bar>1 / 524288 * (of_int r :: real)\<bar> \<le> 20 \<longleftrightarrow> - 10485760 \<le> r \<and> r \<le> 10485760"
proof -
  have "\<bar>1 / 524288 * (of_int r :: real)\<bar> \<le> 20 \<longleftrightarrow> \<bar>(of_int r :: real)\<bar> \<le> 10485760"
    by (simp add: abs_mult)
  also have "\<dots> \<longleftrightarrow> \<bar>r\<bar> \<le> 10485760"
    by linarith
  also have "\<dots> \<longleftrightarrow> - 10485760 \<le> r \<and> r \<le> 10485760" by linarith
  finally show ?thesis .
qed

lemma scaled_bounds_20:
  fixes x :: real
  shows "- 10485760 - 1 / 2 \<le> x * 524288 \<and> x * 524288 \<le> 10485760 + 1 / 2
     \<longleftrightarrow> \<bar>x\<bar> \<le> 20 + 1 / 1048576"
  by linarith

lemma f32_below_16:
  assumes "\<bar>x\<bar> < 16"
  shows "\<bar>f32 x\<bar> \<le> 20"
proof -
  from assms have "\<bar>x\<bar> < 2 powr of_int (3 + 1)" unfolding pow2_16 [symmetric] .
  then have "\<bar>f32 x - x\<bar> \<le> 2 powr of_int (3 - int 24)"
    unfolding f32_def by (rule fp_round_half_ulp) simp
  with half_ulp_below_16 have "\<bar>f32 x - x\<bar> \<le> 1" by linarith
  with assms show ?thesis by linarith
qed

lemma f32_normal_32: "(2 :: real) powr of_int (- 126) \<le> 32"
  by (simp add: powr_neg_numeral)

lemma pow2_minus_24: "(2 :: real) powr (- of_int (int 24)) \<le> 1 / 4"
  by (simp add: powr_neg_numeral)

lemma f32_above_32:
  assumes "32 \<le> \<bar>x\<bar>"
  shows "\<not> \<bar>f32 x\<bar> \<le> 20"
proof -
  from assms f32_normal_32 have "2 powr of_int (- 126) \<le> \<bar>x\<bar>" by linarith
  then have "\<bar>f32 x - x\<bar> \<le> \<bar>x\<bar> * 2 powr (- of_int (int 24))"
    unfolding f32_def by (rule fp_round_relative)
  also have "\<dots> \<le> \<bar>x\<bar> * (1 / 4)"
    using pow2_minus_24 by (intro mult_left_mono) auto
  finally have "\<bar>f32 x - x\<bar> \<le> \<bar>x\<bar> / 4" by simp
  with assms show ?thesis by linarith
qed

lemma f32_le_20_iff: "\<bar>f32 x\<bar> \<le> 20 \<longleftrightarrow> \<bar>x\<bar> \<le> 20 + 1 / 1048576"
proof -
  consider "\<bar>x\<bar> < 16" | "16 \<le> \<bar>x\<bar>" "\<bar>x\<bar> < 32" | "32 \<le> \<bar>x\<bar>" by linarith
  then show ?thesis
  proof cases
    case 1
    from f32_below_16 [OF 1] 1 show ?thesis by linarith
  next
    case 2
    have ev: "even (10485760 :: int)" "even (- 10485760 :: int)" by simp_all
    have "\<bar>f32 x\<bar> \<le> 20 \<longleftrightarrow>
        - 10485760 \<le> round_even (x / (1 / 524288)) \<and> round_even (x / (1 / 524288)) \<le> 10485760"
      unfolding f32_binade_16 [OF 2] by (rule abs_scaled_le_20)
    also have "\<dots> \<longleftrightarrow> - 10485760 - 1 / 2 \<le> x * 524288 \<and> x * 524288 \<le> 10485760 + 1 / 2"
      using round_even_ge_iff [OF ev(2), of "x * 524288"]
        round_even_le_iff [OF ev(1), of "x * 524288"] by simp
    also have "\<dots> \<longleftrightarrow> \<bar>x\<bar> \<le> 20 + 1 / 1048576"
      by (rule scaled_bounds_20)
    finally show ?thesis .
  next
    case 3
    from f32_above_32 [OF 3] 3 show ?thesis by linarith
  qed
qed

text \<open>Error of one rounding below 512 and below 4096.\<close>

lemma p512: "(512 :: real) = 2 powr of_int (8 + 1)"
  by simp
lemma p4096: "(4096 :: real) = 2 powr of_int (11 + 1)"
  by simp

lemma f64_err_512:
  assumes "\<bar>x\<bar> < 512"
  shows "\<bar>f64 x - x\<bar> \<le> 1 / 35184372088832"
proof -
  from assms have "\<bar>x\<bar> < 2 powr of_int (8 + 1)" unfolding p512 [symmetric] .
  then have "\<bar>f64 x - x\<bar> \<le> 2 powr of_int (8 - int 53)"
    unfolding f64_def by (rule fp_round_half_ulp) simp
  also have "\<dots> = 1 / 35184372088832" by (simp add: powr_neg_numeral)
  finally show ?thesis .
qed

lemma f32_err_512:
  assumes "\<bar>x\<bar> < 512"
  shows "\<bar>f32 x - x\<bar> \<le> 1 / 65536"
proof -
  from assms have "\<bar>x\<bar> < 2 powr of_int (8 + 1)" unfolding p512 [symmetric] .
  then have "\<bar>f32 x - x\<bar> \<le> 2 powr of_int (8 - int 24)"
    unfolding f32_def by (rule fp_round_half_ulp) simp
  also have "\<dots> = 1 / 65536" by (simp add: powr_neg_numeral)
  finally show ?thesis .
qed

lemma f64_err_4096:
  assumes "\<bar>x\<bar> < 4096"
  shows "\<bar>f64 x - x\<bar> \<le> 1 / 4398046511104"
proof -
  from assms have "\<bar>x\<bar> < 2 powr of_int (11 + 1)" unfolding p4096 [symmetric] .
  then have "\<bar>f64 x - x\<bar> \<le> 2 powr of_int (11 - int 53)"
    unfolding f64_def by (rule fp_round_half_ulp) simp
  also have "\<dots> = 1 / 4398046511104" by (simp add: powr_neg_numeral)
  finally show ?thesis .
qed

lemma f32_err_4096:
  assumes "\<bar>x\<bar> < 4096"
  shows "\<bar>f32 x - x\<bar> \<le> 1 / 8192"
proof -
  from assms have "\<bar>x\<bar> < 2 powr of_int (11 + 1)" unfolding p4096 [symmetric] .
  then have "\<bar>f32 x - x\<bar> \<le> 2 powr of_int (11 - int 24)"
    unfolding f32_def by (rule fp_round_half_ulp) simp
  also have "\<dots> = 1 / 8192" by (simp add: powr_neg_numeral)
  finally show ?thesis .
qed


section \<open>Properties of the torque integrator\<close>


lemma clamp_upper: "(if x > M then M else x) = min M (x :: real)"
  by (simp add: min_def)

lemma clamp_lower: "(if y < - M then - M else y) = max (- M) (y :: real)"
  by (simp add: max_def)

lemma clamp_bounds:
  fixes M x :: real
  assumes "0 \<le> M"
  shows "- M \<le> max (- M) (min M x)" and "max (- M) (min M x) \<le> M"
  using assms by auto

lemma omega_rad_s_stored:
  "omega_rad_s (c\<lparr>last_update_ms := n, omega_rad_s := w\<rparr>) = w"
  by simp

text \<open>
  The value \<open>calculate_omega\<close> returns, in closed form: the integrated speed in rad/s,
  clamped to the envelope, converted to RPM.
\<close>

lemma calculate_omega_value:
  "fst (calculate_omega PI c now_ms actual torque) =
     max (- (2 * PI * 2500 / 60))
       (min (2 * PI * 2500 / 60)
         (torque / J * dt_s now_ms (last_update_ms c) + actual * (2 * PI / 60)))
     * (60 / (2 * PI))"
  by (simp only: calculate_omega_def Let_def clamp_upper clamp_lower fst_conv omega_rad_s_stored)

lemma calcSetpoint_forwards:
  "fst (calcSetpoint_iter PI c now_ms actual torque)
     = fst (calculate_omega PI c now_ms actual torque)"
  by (simp add: calcSetpoint_iter_def split: prod.split)










text \<open>
  C3. For every torque, every pair of millisecond counts, every actual speed and every
  object, the RPM \<open>calculate_omega\<close> returns lies in the closed interval from -2500 to
  2500, and it is the value \<open>task_calcSetpoint\<close> puts on the speed command queue. The
  macro \<open>PI\<close> is any positive number.
\<close>

theorem omega_bounded:
  assumes "0 < PI"
  shows "- 2500 \<le> fst (calculate_omega PI c now_ms actual torque)
       \<and> fst (calculate_omega PI c now_ms actual torque) \<le> 2500
       \<and> fst (calcSetpoint_iter PI c now_ms actual torque)
           = fst (calculate_omega PI c now_ms actual torque)"
proof -
  let ?M = "2 * PI * 2500 / 60"
  let ?x = "torque / J * dt_s now_ms (last_update_ms c) + actual * (2 * PI / 60)"
  let ?w = "max (- ?M) (min ?M ?x)"
  have M0: "0 \<le> ?M" using assms by simp
  have k: "0 < 60 / (2 * PI)" using assms by simp
  have kM: "?M * (60 / (2 * PI)) = 2500" using assms by simp
  have lo: "- ?M \<le> ?w" and hi: "?w \<le> ?M"
    using clamp_bounds [OF M0] by blast+
  from lo k have "- ?M * (60 / (2 * PI)) \<le> ?w * (60 / (2 * PI))"
    by (intro mult_right_mono) auto
  then have l: "- 2500 \<le> ?w * (60 / (2 * PI))" using kM by (simp only: mult_minus_left)
  from hi k have "?w * (60 / (2 * PI)) \<le> ?M * (60 / (2 * PI))"
    by (intro mult_right_mono) auto
  then have h: "?w * (60 / (2 * PI)) \<le> 2500" using kM by simp
  show ?thesis
    unfolding calcSetpoint_forwards unfolding calculate_omega_value using l h by blast
qed

text \<open>An instance: a torque of 5 N m one second after construction, from standstill.\<close>

theorem omega_bounded_witness:
  "- 2500 \<le> fst (calculate_omega pi Controller_new 1000 0 5)
   \<and> fst (calculate_omega pi Controller_new 1000 0 5) \<le> 2500"
  using omega_bounded [of pi Controller_new 1000 0 5] by simp

subsection \<open>The zero-torque path in binary arithmetic\<close>

text \<open>
  The constants of the two unit conversions and of the clamp, for \<open>PI_double\<close>.
\<close>

lemma two_pi_fp: "f64 (2 * PI_double) = 884279719003555 / 140737488355328"
  unfolding f64_def PI_double_def
  by (subst fp_round_eval [OF u50]) (simp_all add: round_even_def Let_def)

lemma to_rad_fp: "f64 (f64 (2 * PI_double) / 60) = 7545853602163669 / 72057594037927936"
  unfolding two_pi_fp unfolding f64_def
  by (subst fp_round_eval [OF u56]) (simp_all add: round_even_def Let_def)

lemma to_rpm_fp: "f64 (60 / f64 (2 * PI_double)) = 5375776068021243 / 562949953421312"
  unfolding two_pi_fp unfolding f64_def
  by (subst fp_round_eval [OF u49]) (simp_all add: round_even_def Let_def)

lemma omega_max_fp_1: "f64 (f64 (2 * PI_double) * 2500) = 2158886032723523 / 137438953472"
  unfolding two_pi_fp unfolding f64_def
  by (subst fp_round_eval [OF u39]) (simp_all add: round_even_def Let_def)

lemma omega_max_fp_2: "f64 (f64 (f64 (2 * PI_double) * 2500) / 60) = 4605623536476849 / 17592186044416"
  unfolding omega_max_fp_1 unfolding f64_def
  by (subst fp_round_eval [OF u44]) (simp_all add: round_even_def Let_def)

lemma omega_max_fp: "f32 (f64 (f64 (f64 (2 * PI_double) * 2500) / 60)) = 4289321 / 16384"
  unfolding omega_max_fp_2 unfolding f32_def
  by (subst fp_round_eval [OF u15]) (simp_all add: round_even_def Let_def)

lemma calculate_omega_fp_zero_torque:
  "fst (calculate_omega_fp PI_double c now_ms actual 0) =
     f32 (f64 (max (- (4289321 / 16384)) (min (4289321 / 16384)
       (f32 (f64 (f64 (actual * (7545853602163669 / 72057594037927936))))))
       * (5375776068021243 / 562949953421312)))"
  by (simp only: calculate_omega_fp_def Let_def to_rad_fp to_rpm_fp omega_max_fp
      div_0 mult_zero_left f32_zero add_0 clamp_upper clamp_lower fst_conv omega_rad_s_stored)

text \<open>
  An actual speed of at most 2500 RPM in magnitude, converted to rad/s, clamped and
  converted back, each step rounded as the code rounds it, comes back within 0.0003 RPM.
\<close>

lemma round_trip_error:
  fixes actual :: real
  assumes a: "\<bar>actual\<bar> \<le> 2500"
  shows "\<bar>f32 (f64 (max (- (4289321 / 16384)) (min (4289321 / 16384)
       (f32 (f64 (f64 (actual * (7545853602163669 / 72057594037927936))))))
       * (5375776068021243 / 562949953421312))) - actual\<bar> \<le> 3 / 10000"
proof -
  define p1 where "p1 = actual * (7545853602163669 / 72057594037927936)"
  define x1 where "x1 = f64 p1"
  define s where "s = f64 x1"
  define om where "om = f32 s"
  define om' where "om' = max (- (4289321 / 16384)) (min (4289321 / 16384) om)"
  define p2 where "p2 = om' * (5375776068021243 / 562949953421312)"
  define y where "y = f64 p2"
  define r where "r = f32 y"
  have p1b: "\<bar>p1\<bar> \<le> 262" using a unfolding p1_def by linarith
  have p1m: "\<bar>p1\<bar> \<le> 4289321 / 16384 + 1 / 65536" using a unfolding p1_def by linarith
  have e1: "\<bar>x1 - p1\<bar> \<le> 1 / 35184372088832"
    unfolding x1_def using p1b by (intro f64_err_512) linarith
  have e2: "\<bar>s - x1\<bar> \<le> 1 / 35184372088832"
    unfolding s_def using p1b e1 by (intro f64_err_512) linarith
  have e3: "\<bar>om - s\<bar> \<le> 1 / 65536"
    unfolding om_def using p1b e1 e2 by (intro f32_err_512) linarith
  have e4: "\<bar>om' - p1\<bar> \<le> 1 / 65536 + 2 / 35184372088832"
    unfolding om'_def using e1 e2 e3 p1m by linarith
  have omb: "\<bar>om'\<bar> \<le> 4289321 / 16384" unfolding om'_def by linarith
  have p2b: "\<bar>p2\<bar> \<le> 2501" using omb unfolding p2_def by linarith
  have e5: "\<bar>y - p2\<bar> \<le> 1 / 4398046511104"
    unfolding y_def using p2b by (intro f64_err_4096) linarith
  have e6: "\<bar>r - y\<bar> \<le> 1 / 8192"
    unfolding r_def using p2b e5 by (intro f32_err_4096) linarith
  have e7: "\<bar>p2 - actual\<bar> \<le> 147 / 1000000"
    using e4 a unfolding p2_def p1_def by linarith
  have "\<bar>r - actual\<bar> \<le> 3 / 10000" using e5 e6 e7 by linarith
  then show ?thesis
    unfolding r_def y_def p2_def om'_def om_def s_def x1_def p1_def .
qed

lemma calculate_omega_fp_2498:
  "fst (calculate_omega_fp PI_double c now_ms 2498 0) = 10231807 / 4096"
proof -
  have a: "f64 (2498 * (7545853602163669 / 72057594037927936))
      = 4601939037647667 / 17592186044416"
    unfolding f64_def
    by (subst fp_round_eval [OF u44]) (simp_all add: round_even_def Let_def)
  have b: "f64 (4601939037647667 / 17592186044416) = 4601939037647667 / 17592186044416"
    unfolding f64_def
    by (subst fp_round_eval [OF u44]) (simp_all add: round_even_def Let_def)
  have c: "f32 (4601939037647667 / 17592186044416) = 8571779 / 32768"
    unfolding f32_def
    by (subst fp_round_eval [OF u15]) (simp_all add: round_even_def Let_def)
  have d: "max (- (4289321 / 16384)) (min (4289321 / 16384) (8571779 / 32768 :: real))
      = 8571779 / 32768"
    by simp
  have e: "f64 (8571779 / 32768 * (5375776068021243 / 562949953421312))
      = 5493159819670565 / 2199023255552"
    unfolding f64_def
    by (subst fp_round_eval [OF u41]) (simp_all add: round_even_def Let_def)
  have f: "f32 (5493159819670565 / 2199023255552) = 10231807 / 4096"
    unfolding f32_def
    by (subst fp_round_eval [OF u12]) (simp_all add: round_even_def Let_def)
  show ?thesis
    unfolding calculate_omega_fp_zero_torque a b c d e f ..
qed

lemma calcSetpoint_fp_forwards:
  "fst (calcSetpoint_iter_fp PI c now_ms actual torque)
     = fst (calculate_omega_fp PI c now_ms actual torque)"
  by (simp add: calcSetpoint_iter_fp_def split: prod.split)

text \<open>
  C4, as amended. With a torque command of exactly 0 and an actual speed within 2500 RPM of
  zero, \<open>calculate_omega\<close> returns the actual speed it read from the share up to the
  rounding of the two unit conversions: the returned value is within 0.0003 RPM of the value
  read, whatever the elapsed time and the object, and \<open>task_calcSetpoint\<close> puts that
  value on the speed command queue. The error does not accumulate, since every call starts
  from the value in the share.
\<close>

theorem zero_torque_within_rounding:
  assumes "\<bar>actual\<bar> \<le> 2500"
  shows "\<bar>fst (calculate_omega_fp PI_double c now_ms actual 0) - actual\<bar> \<le> 3 / 10000
       \<and> fst (calcSetpoint_iter_fp PI_double c now_ms actual 0)
           = fst (calculate_omega_fp PI_double c now_ms actual 0)"
  unfolding calcSetpoint_fp_forwards calculate_omega_fp_zero_torque
  using round_trip_error [OF assms] by simp

text \<open>Instances: the share holds 2498 RPM, and -970 RPM.\<close>

theorem zero_torque_within_rounding_witness:
  "\<bar>fst (calculate_omega_fp PI_double Controller_new 1000 2498 0) - 2498\<bar> \<le> 3 / 10000
   \<and> fst (calculate_omega_fp PI_double Controller_new 1000 (- 970) 0)
       = fst (calcSetpoint_iter_fp PI_double Controller_new 1000 (- 970) 0)"
  using zero_torque_within_rounding [of 2498 Controller_new 1000]
    zero_torque_within_rounding [of "- 970" Controller_new 1000]
  by simp

text \<open>
  The returned value is not always the value read: for 2498 RPM the call returns
  \<open>10231807 / 4096\<close>, which is 2497.999755859375, one unit in the last place below.
\<close>

theorem zero_torque_not_identity:
  "fst (calculate_omega_fp PI_double Controller_new 1000 2498 0) = 10231807 / 4096
   \<and> fst (calculate_omega_fp PI_double Controller_new 1000 2498 0) \<noteq> 2498
   \<and> \<bar>2498 :: real\<bar> \<le> 2500"
  unfolding calculate_omega_fp_2498 by simp

subsection \<open>The bound on the returned speed in binary arithmetic\<close>

text \<open>
  Rounding does not lead out of the envelope: a number of magnitude at most 2500 rounds to a
  binary32 number of magnitude at most 2500, and the clamp bound converted to RPM stays
  below 2500. So in binary arithmetic too, with \<open>PI_double\<close> for the macro, the returned
  speed is within 2500 RPM of zero for every torque, elapsed time and actual speed.
\<close>

lemma f32_binade_2048:
  assumes "2048 \<le> \<bar>x\<bar>" "\<bar>x\<bar> < 4096"
  shows "f32 x = 1 / 4096 * of_int (round_even (x / (1 / 4096)))"
  unfolding f32_def using assms by (intro fp_round_eval [OF u12]) simp_all

lemma p2048: "(2048 :: real) = 2 powr of_int (10 + 1)"
  by simp

lemma half_ulp_below_2048: "(2 :: real) powr of_int (10 - int 24) \<le> 1"
  by (simp add: powr_neg_numeral)

lemma f32_le_2500:
  assumes "\<bar>x\<bar> \<le> 2500"
  shows "\<bar>f32 x\<bar> \<le> 2500"
proof (cases "\<bar>x\<bar> < 2048")
  case True
  then have "\<bar>x\<bar> < 2 powr of_int (10 + 1)" unfolding p2048 [symmetric] .
  then have "\<bar>f32 x - x\<bar> \<le> 2 powr of_int (10 - int 24)"
    unfolding f32_def by (rule fp_round_half_ulp) simp
  with half_ulp_below_2048 have "\<bar>f32 x - x\<bar> \<le> 1" by linarith
  with True show ?thesis by linarith
next
  case False
  then have b: "2048 \<le> \<bar>x\<bar>" "\<bar>x\<bar> < 4096" using assms by linarith+
  have ev: "even (10240000 :: int)" "even (- 10240000 :: int)" by simp_all
  have "x * 4096 \<le> 10240000 + 1 / 2" "- 10240000 - 1 / 2 \<le> x * 4096"
    using assms by linarith+
  then have "round_even (x * 4096) \<le> 10240000" "- 10240000 \<le> round_even (x * 4096)"
    using round_even_le_iff [OF ev(1), of "x * 4096"]
      round_even_ge_iff [OF ev(2), of "x * 4096"] by simp_all
  then have "\<bar>real_of_int (round_even (x * 4096))\<bar> \<le> 10240000" by linarith
  then have "\<bar>1 / 4096 * real_of_int (round_even (x / (1 / 4096)))\<bar> \<le> 2500"
    by (simp add: abs_mult)
  then show ?thesis unfolding f32_binade_2048 [OF b] .
qed

lemma calculate_omega_fp_value:
  "fst (calculate_omega_fp PI_double c now_ms actual torque) =
     f32 (f64 (max (- (4289321 / 16384)) (min (4289321 / 16384)
       (f32 (f64 (f32 (f32 (torque / J_fp) * dt_s_fp now_ms (last_update_ms c))
          + f64 (actual * (7545853602163669 / 72057594037927936))))))
       * (5375776068021243 / 562949953421312)))"
  by (simp only: calculate_omega_fp_def Let_def to_rad_fp to_rpm_fp omega_max_fp
      clamp_upper clamp_lower fst_conv omega_rad_s_stored)

lemma omega_bounded_fp:
  "\<bar>fst (calculate_omega_fp PI_double c now_ms actual torque)\<bar> \<le> 2500"
proof -
  define w where "w = max (- (4289321 / 16384)) (min (4289321 / 16384)
       (f32 (f64 (f32 (f32 (torque / J_fp) * dt_s_fp now_ms (last_update_ms c))
          + f64 (actual * (7545853602163669 / 72057594037927936))))))"
  have wb: "\<bar>w\<bar> \<le> 4289321 / 16384" unfolding w_def by linarith
  define p where "p = w * (5375776068021243 / 562949953421312)"
  have pb: "\<bar>p\<bar> \<le> 49999999 / 20000" using wb unfolding p_def by linarith
  have "\<bar>f64 p - p\<bar> \<le> 1 / 4398046511104"
    using pb by (intro f64_err_4096) linarith
  with pb have "\<bar>f64 p\<bar> \<le> 2500" by linarith
  then have "\<bar>f32 (f64 p)\<bar> \<le> 2500" by (rule f32_le_2500)
  then show ?thesis unfolding calculate_omega_fp_value p_def w_def .
qed

section \<open>Properties of the speed control state machine\<close>

subsection \<open>Single passes\<close>

lemma decel_hold:
  "speed_state c = 2 \<Longrightarrow> sign (speed_command c) \<noteq> sign a \<Longrightarrow> \<bar>a\<bar> \<ge> 20 \<Longrightarrow>
   speedControl_iter c a d q = (c\<lparr>speed_real := a, direction := d\<rparr>, [Call_vTaskDelay 10])"
  by (simp add: speedControl_iter_def Let_def)

lemma decel_cross_pos_to_neg:
  "speed_state c = 2 \<Longrightarrow> sign (speed_command c) \<noteq> sign a \<Longrightarrow> \<bar>a\<bar> < 20 \<Longrightarrow>
   speedControl_iter c a LOW q =
     (c\<lparr>speed_real := a, direction := LOW, speed_state := 4\<rparr>, [Call_vTaskDelay 10])"
  by (simp add: speedControl_iter_def Let_def)

lemma crossing_pos_to_neg:
  "speed_state c = 4 \<Longrightarrow>
   speedControl_iter c a d q =
     (c\<lparr>speed_real := a, direction := HIGH, speed_state := 1\<rparr>,
      [Call_set_dir HIGH, Call_unbrake, Call_cmd_speed_PWM \<bar>speed_command c\<bar>])"
  by (simp add: speedControl_iter_def Let_def)

lemma pwm_magnitude_step:
  "Call_cmd_speed_PWM x \<in> set (snd (speedControl_iter c a d q)) \<Longrightarrow>
   0 \<le> x \<and> (x = 0 \<or> x = \<bar>speed_command (fst (speedControl_iter c a d q))\<bar>)"
  by (auto simp add: speedControl_iter_def Let_def split: if_splits)

subsection \<open>Runs of passes\<close>

text \<open>
  While the machine decelerates towards a reversal and the speed is still 20 RPM or more, a
  pass only refreshes the two readings and sleeps: the run so far is a list of such passes,
  and the rest of the run starts from a state with the same state number and the same
  command.
\<close>

lemma decel_prefix:
  assumes "speed_state c = 2"
    and "\<forall>x \<in> set pre. sign (speed_command c) \<noteq> sign (fst x) \<and> \<bar>fst x\<bar> \<ge> 20"
  shows "\<exists>c'. speed_state c' = 2 \<and> speed_command c' = speed_command c
      \<and> speedControl_trace c (pre @ rest) =
          map (\<lambda>x. (c\<lparr>speed_real := fst x, direction := fst (snd x)\<rparr>, [Call_vTaskDelay 10])) pre
          @ speedControl_trace c' rest"
  using assms
proof (induction pre arbitrary: c)
  case Nil
  then show ?case by auto
next
  case (Cons x pre)
  obtain a d q where x: "x = (a, d, q)" by (cases x) auto
  let ?c1 = "c\<lparr>speed_real := a, direction := d\<rparr>"
  from Cons.prems x have step: "speedControl_iter c a d q = (?c1, [Call_vTaskDelay 10])"
    by (simp add: decel_hold)
  have s1: "speed_state ?c1 = 2" using Cons.prems by simp
  have p1: "\<forall>x \<in> set pre. sign (speed_command ?c1) \<noteq> sign (fst x) \<and> \<bar>fst x\<bar> \<ge> 20"
    using Cons.prems by simp
  from Cons.IH [OF s1 p1] obtain c' where c': "speed_state c' = 2"
    "speed_command c' = speed_command ?c1"
    "speedControl_trace ?c1 (pre @ rest) =
       map (\<lambda>x. (?c1\<lparr>speed_real := fst x, direction := fst (snd x)\<rparr>, [Call_vTaskDelay 10])) pre
       @ speedControl_trace c' rest"
    by blast
  have "speedControl_trace c ((x # pre) @ rest) =
      map (\<lambda>x. (c\<lparr>speed_real := fst x, direction := fst (snd x)\<rparr>, [Call_vTaskDelay 10])) (x # pre)
      @ speedControl_trace c' rest"
    using step c'(3) x by simp
  with c' show ?case by auto
qed

text \<open>Every element of a run is the result of one pass from some state.\<close>

lemma trace_member:
  "r \<in> set (speedControl_trace c ins) \<Longrightarrow>
   \<exists>c0 a d q. r = speedControl_iter c0 a d q"
proof (induction ins arbitrary: c)
  case Nil
  then show ?case by simp
next
  case (Cons x ins)
  obtain a d q where x: "x = (a, d, q)" by (cases x) auto
  from Cons.prems x
  have "r = speedControl_iter c a d q
      \<or> r \<in> set (speedControl_trace (fst (speedControl_iter c a d q)) ins)"
    by (simp add: Let_def)
  then show ?case using Cons.IH by blast
qed

text \<open>A tone is written only by \<open>cmd_speed_PWM\<close>, at a fifteenth of its argument.\<close>

lemma tone_from_pwm:
  "LedcWriteTone ch f \<in> set (concat (map events_of calls)) \<Longrightarrow>
   \<exists>x. Call_cmd_speed_PWM x \<in> set calls \<and> f = x / 15"
proof (induction calls)
  case Nil
  then show ?case by simp
next
  case (Cons k calls)
  then show ?case
    by (cases k)
      (auto simp add: cmd_speed_PWM_def brake_def unbrake_def set_dir_def Let_def)
qed

subsection \<open>Transitions and the call invariant\<close>

text \<open>
  C6. In state 0 (idle), when the command taken from the queue equals the actual speed read
  in the same pass, the pass makes no call at all (no \<open>cmd_speed_PWM\<close>, \<open>brake\<close>,
  \<open>unbrake\<close> or \<open>set_dir\<close>, and no delay), nothing reaches the hardware, and the state
  number stays 0, so the next pass starts by waiting on the queue again. Only the three
  locals holding the readings and the command change.
\<close>

theorem idle_equal_no_action:
  assumes "speed_state c = 0" and "cmd_in = actual"
  shows "speedControl_iter c actual dir cmd_in =
           (c\<lparr>speed_real := actual, direction := dir, speed_command := cmd_in\<rparr>, [])
       \<and> speed_state (fst (speedControl_iter c actual dir cmd_in)) = 0
       \<and> concat (map events_of (snd (speedControl_iter c actual dir cmd_in))) = []"
  using assms by (simp add: speedControl_iter_def Let_def)

text \<open>An instance: at 1200 RPM, a command of 1200 RPM arrives.\<close>

theorem idle_equal_no_action_witness:
  "speedControl_iter \<lparr>speed_state = 0, speed_command = 0, speed_real = 0, direction = LOW\<rparr>
       1200 LOW 1200 =
     (\<lparr>speed_state = 0, speed_command = 1200, speed_real = 1200, direction = LOW\<rparr>, [])"
  using idle_equal_no_action [of
      "\<lparr>speed_state = 0, speed_command = 0, speed_real = 0, direction = LOW\<rparr>" 1200 1200 LOW]
  by simp

text \<open>
  C7. Zero-crossing sequencing. Start in state 2 (decelerating). Let any number of passes
  go by in which the command and the actual speed have opposite signs, the direction pin
  reads LOW and the speed is 20 RPM or more: the state stays 2. At the first pass in which
  the speed is below 20 RPM (signs still opposite, pin LOW) the state becomes 4, the crossing
  from positive to negative. The pass after that, whatever it reads, calls \<open>set_dir(HIGH)\<close>,
  \<open>unbrake()\<close> and \<open>cmd_speed_PWM\<close> with the magnitude of the command, in this order,
  and the state becomes 1 (accelerating); on the hardware this is the direction pin written
  HIGH, the brake pin written LOW and a tone of a fifteenth of the magnitude.
\<close>

theorem zero_crossing:
  assumes "speed_state c = 2"
    and "\<forall>x \<in> set pre. sign (speed_command c) \<noteq> sign (fst x) \<and> fst (snd x) = LOW
            \<and> \<bar>fst x\<bar> \<ge> 20"
    and "sign (speed_command c) \<noteq> sign a1" and "\<bar>a1\<bar> < 20"
  shows "map (speed_state \<circ> fst)
           (speedControl_trace c (pre @ [(a1, LOW, q1), (a2, d2, q2)]))
         = replicate (length pre) 2 @ [4, 1]
       \<and> snd (last (speedControl_trace c (pre @ [(a1, LOW, q1), (a2, d2, q2)])))
         = [Call_set_dir HIGH, Call_unbrake, Call_cmd_speed_PWM \<bar>speed_command c\<bar>]
       \<and> concat (map events_of
            (snd (last (speedControl_trace c (pre @ [(a1, LOW, q1), (a2, d2, q2)])))))
         = [DigitalWrite PIN_DIR HIGH, DigitalWrite PIN_BRAKE LOW,
            LedcWriteTone 0 (\<bar>speed_command c\<bar> / 15)]"
proof -
  from assms(2) have p: "\<forall>x \<in> set pre. sign (speed_command c) \<noteq> sign (fst x) \<and> \<bar>fst x\<bar> \<ge> 20"
    by auto
  from decel_prefix [OF assms(1) p, of "[(a1, LOW, q1), (a2, d2, q2)]"]
  obtain c' where c': "speed_state c' = 2" "speed_command c' = speed_command c"
    "speedControl_trace c (pre @ [(a1, LOW, q1), (a2, d2, q2)]) =
       map (\<lambda>x. (c\<lparr>speed_real := fst x, direction := fst (snd x)\<rparr>, [Call_vTaskDelay 10])) pre
       @ speedControl_trace c' [(a1, LOW, q1), (a2, d2, q2)]"
    by blast
  let ?c1 = "c'\<lparr>speed_real := a1, direction := LOW, speed_state := 4\<rparr>"
  have s1: "speedControl_iter c' a1 LOW q1 = (?c1, [Call_vTaskDelay 10])"
    using c' assms(3,4) by (simp add: decel_cross_pos_to_neg)
  have s2: "speedControl_iter ?c1 a2 d2 q2 =
     (?c1\<lparr>speed_real := a2, direction := HIGH, speed_state := 1\<rparr>,
      [Call_set_dir HIGH, Call_unbrake, Call_cmd_speed_PWM \<bar>speed_command c\<bar>])"
    using c'(2) by (simp add: crossing_pos_to_neg)
  have tail: "speedControl_trace c' [(a1, LOW, q1), (a2, d2, q2)] =
     [(?c1, [Call_vTaskDelay 10]),
      (?c1\<lparr>speed_real := a2, direction := HIGH, speed_state := 1\<rparr>,
       [Call_set_dir HIGH, Call_unbrake, Call_cmd_speed_PWM \<bar>speed_command c\<bar>])]"
    using s1 s2 by simp
  show ?thesis
    unfolding c'(3) tail using assms(1)
    by (simp add: comp_def map_replicate_const set_dir_def unbrake_def cmd_speed_PWM_def)
qed

text \<open>
  An instance: a command of -500 RPM while the wheel turns forward; the speed readings are
  100, 50, 10 and 3 RPM.
\<close>

theorem zero_crossing_witness:
  "map (speed_state \<circ> fst)
     (speedControl_trace
        \<lparr>speed_state = 2, speed_command = - 500, speed_real = 300, direction = LOW\<rparr>
        [(100, LOW, 0), (50, LOW, 0), (10, LOW, 0), (3, LOW, 0)]) = [2, 2, 4, 1]
   \<and> snd (last (speedControl_trace
        \<lparr>speed_state = 2, speed_command = - 500, speed_real = 300, direction = LOW\<rparr>
        [(100, LOW, 0), (50, LOW, 0), (10, LOW, 0), (3, LOW, 0)]))
     = [Call_set_dir HIGH, Call_unbrake, Call_cmd_speed_PWM 500]"
  using zero_crossing [of
      "\<lparr>speed_state = 2, speed_command = - 500, speed_real = 300, direction = LOW\<rparr>"
      "[(100, LOW, 0), (50, LOW, 0)]" 10 0 3 LOW 0]
  by (simp add: sign_def)

text \<open>
  The accelerating state in binary arithmetic: a pass outside the deadband only refreshes
  the readings and sleeps, a pass inside it makes the machine idle; and a speed that starts
  at \<open>a0\<close> and moves towards \<open>cmd\<close> by 1 per step is farther than \<open>T\<close> from it before
  step \<open>\<lceil>\<bar>a0 - cmd\<bar> - T\<rceil>\<close> and within \<open>T\<close> at that step.
\<close>

lemma accel_hold_fp:
  "speed_state c = 1 \<Longrightarrow> \<bar>f32 (a - speed_command c)\<bar> > 20 \<Longrightarrow>
   speedControl_iter_fp c a d q = (c\<lparr>speed_real := a, direction := d\<rparr>, [Call_vTaskDelay 10])"
  by (simp add: speedControl_iter_fp_def Let_def)

lemma accel_done_fp:
  "speed_state c = 1 \<Longrightarrow> \<bar>f32 (a - speed_command c)\<bar> \<le> 20 \<Longrightarrow>
   speedControl_iter_fp c a d q = (c\<lparr>speed_real := a, direction := d, speed_state := 0\<rparr>, [])"
  by (simp add: speedControl_iter_fp_def Let_def)

lemma accel_prefix_fp:
  assumes "speed_state c = 1"
    and "\<forall>x \<in> set pre. \<bar>f32 (fst x - speed_command c)\<bar> > 20"
  shows "\<exists>c'. speed_state c' = 1 \<and> speed_command c' = speed_command c
      \<and> speedControl_trace_fp c (pre @ rest) =
          map (\<lambda>x. (c\<lparr>speed_real := fst x, direction := fst (snd x)\<rparr>, [Call_vTaskDelay 10])) pre
          @ speedControl_trace_fp c' rest"
  using assms
proof (induction pre arbitrary: c)
  case Nil
  then show ?case by auto
next
  case (Cons x pre)
  obtain a d q where x: "x = (a, d, q)" by (cases x) auto
  let ?c1 = "c\<lparr>speed_real := a, direction := d\<rparr>"
  from Cons.prems x have step: "speedControl_iter_fp c a d q = (?c1, [Call_vTaskDelay 10])"
    by (simp add: accel_hold_fp)
  have s1: "speed_state ?c1 = 1" using Cons.prems by simp
  have p1: "\<forall>x \<in> set pre. \<bar>f32 (fst x - speed_command ?c1)\<bar> > 20"
    using Cons.prems by simp
  from Cons.IH [OF s1 p1] obtain c' where c': "speed_state c' = 1"
    "speed_command c' = speed_command ?c1"
    "speedControl_trace_fp ?c1 (pre @ rest) =
       map (\<lambda>x. (?c1\<lparr>speed_real := fst x, direction := fst (snd x)\<rparr>, [Call_vTaskDelay 10])) pre
       @ speedControl_trace_fp c' rest"
    by blast
  have "speedControl_trace_fp c ((x # pre) @ rest) =
      map (\<lambda>x. (c\<lparr>speed_real := fst x, direction := fst (snd x)\<rparr>, [Call_vTaskDelay 10])) (x # pre)
      @ speedControl_trace_fp c' rest"
    using step c'(3) x by simp
  with c' show ?case by auto
qed

lemma accel_until_deadband_fp:
  assumes "speed_state c = 1"
    and "\<forall>x \<in> set pre. \<bar>f32 (fst x - speed_command c)\<bar> > 20"
    and "\<bar>f32 (fst y - speed_command c)\<bar> \<le> 20"
  shows "map (speed_state \<circ> fst) (speedControl_trace_fp c (pre @ [y]))
         = replicate (length pre) 1 @ [0]"
proof -
  obtain a1 d1 q1 where y: "y = (a1, d1, q1)" by (cases y) auto
  from accel_prefix_fp [OF assms(1,2), of "[(a1, d1, q1)]"]
  obtain c' where c': "speed_state c' = 1" "speed_command c' = speed_command c"
    "speedControl_trace_fp c (pre @ [(a1, d1, q1)]) =
       map (\<lambda>x. (c\<lparr>speed_real := fst x, direction := fst (snd x)\<rparr>, [Call_vTaskDelay 10])) pre
       @ speedControl_trace_fp c' [(a1, d1, q1)]"
    by blast
  have "speedControl_iter_fp c' a1 d1 q1 =
     (c'\<lparr>speed_real := a1, direction := d1, speed_state := 0\<rparr>, [])"
    using c' assms(3) y by (simp add: accel_done_fp)
  then show ?thesis
    unfolding y c'(3) using assms(1) by (simp add: comp_def map_replicate_const)
qed

lemma ramp_outside:
  fixes a0 cmd T :: real
  assumes "k < nat \<lceil>\<bar>a0 - cmd\<bar> - T\<rceil>"
  shows "\<bar>(if a0 \<le> cmd then a0 + real k else a0 - real k) - cmd\<bar> > T"
proof -
  define D where "D = \<bar>a0 - cmd\<bar> - T"
  from assms have "int k < \<lceil>D\<rceil>" unfolding D_def by linarith
  then have "real_of_int (int k) < D" by (simp only: less_ceiling_iff)
  then have "real k < \<bar>a0 - cmd\<bar> - T" unfolding D_def by simp
  then show ?thesis by (auto simp add: abs_if split: if_splits)
qed

lemma ramp_inside:
  fixes a0 cmd T :: real
  assumes "n = nat \<lceil>\<bar>a0 - cmd\<bar> - T\<rceil>" and "1 / 2 \<le> T"
  shows "\<bar>(if a0 \<le> cmd then a0 + real n else a0 - real n) - cmd\<bar> \<le> T"
proof -
  define D where "D = \<bar>a0 - cmd\<bar> - T"
  have n: "n = nat \<lceil>D\<rceil>" using assms unfolding D_def by simp
  have c: "of_int \<lceil>D\<rceil> - 1 < D \<and> D \<le> of_int \<lceil>D\<rceil>" by (rule ceiling_correct)
  show ?thesis
  proof (cases "0 < \<lceil>D\<rceil>")
    case True
    then have "real n = of_int \<lceil>D\<rceil>" using n by simp
    with c have "real n - 1 < D" "D \<le> real n" by simp_all
    then have "real n - 1 < \<bar>a0 - cmd\<bar> - T" "\<bar>a0 - cmd\<bar> - T \<le> real n"
      unfolding D_def by simp_all
    with assms(2) show ?thesis by (auto simp add: abs_if split: if_splits)
  next
    case False
    then have n0: "n = 0" using n by simp
    from False c have "D \<le> 0" by linarith
    then have "\<bar>a0 - cmd\<bar> \<le> T" unfolding D_def by simp
    with n0 show ?thesis by (auto simp add: abs_if split: if_splits)
  qed
qed

lemma f32_deadband_edge: "f32 (671088641 / 33554432) = 20"
  unfolding f32_def
  by (subst fp_round_eval [OF u19]) (simp_all add: round_even_def Let_def)

text \<open>
  C9, as amended. Deadband termination. Start in state 1 (accelerating) and let the actual
  speed read in pass \<open>k\<close> (counted from 0) be \<open>a0\<close> moved towards the command by \<open>k\<close>
  RPM, one RPM per pass; the other two readings are arbitrary. The distance the code
  compares with 20 is the magnitude of the difference of the two speeds rounded to binary32,
  and it is at most 20 exactly when the difference itself is at most \<open>20 + 2 ^ - 20\<close> in
  magnitude. Let \<open>n\<close> be the distance between \<open>a0\<close> and the command less that
  threshold, rounded up to a natural number. Then in every pass before pass \<open>n\<close> the
  rounded distance is more than 20, in pass \<open>n\<close> it is at most 20 for the first time, and
  the state is 1 after each of the former and 0 (idle) after pass \<open>n\<close>: the machine
  becomes idle at the first pass whose rounded distance is inside the deadband, which comes
  after finitely many passes, and at no earlier one.
\<close>

theorem deadband_termination:
  assumes "speed_state c = 1"
    and "\<forall>k. fst (ins k) =
           (if a0 \<le> speed_command c then a0 + real k else a0 - real k)"
    and "n = nat \<lceil>\<bar>a0 - speed_command c\<bar> - (20 + 1 / 1048576)\<rceil>"
  shows "(\<forall>k<n. \<bar>f32 (fst (ins k) - speed_command c)\<bar> > 20)
       \<and> \<bar>f32 (fst (ins n) - speed_command c)\<bar> \<le> 20
       \<and> (\<forall>k. \<bar>f32 (fst (ins k) - speed_command c)\<bar> \<le> 20
              \<longleftrightarrow> \<bar>fst (ins k) - speed_command c\<bar> \<le> 20 + 1 / 1048576)
       \<and> map (speed_state \<circ> fst) (speedControl_trace_fp c (map ins [0..<Suc n]))
           = replicate n 1 @ [0]"
proof -
  have out: "\<forall>k<n. \<bar>f32 (fst (ins k) - speed_command c)\<bar> > 20"
  proof (intro allI impI)
    fix k assume "k < n"
    then have "\<bar>fst (ins k) - speed_command c\<bar> > 20 + 1 / 1048576"
      using assms(2,3) ramp_outside [of k a0 "speed_command c" "20 + 1 / 1048576"] by simp
    then show "\<bar>f32 (fst (ins k) - speed_command c)\<bar> > 20"
      using f32_le_20_iff [of "fst (ins k) - speed_command c"] by linarith
  qed
  have "\<bar>fst (ins n) - speed_command c\<bar> \<le> 20 + 1 / 1048576"
    using assms(2) ramp_inside [OF assms(3)] by simp
  then have inside: "\<bar>f32 (fst (ins n) - speed_command c)\<bar> \<le> 20"
    using f32_le_20_iff [of "fst (ins n) - speed_command c"] by simp
  have pre: "\<forall>x \<in> set (map ins [0..<n]). \<bar>f32 (fst x - speed_command c)\<bar> > 20"
    using out by simp
  have "map (speed_state \<circ> fst) (speedControl_trace_fp c (map ins [0..<n] @ [ins n]))
      = replicate (length (map ins [0..<n])) 1 @ [0]"
    by (rule accel_until_deadband_fp [OF assms(1) pre inside])
  then have "map (speed_state \<circ> fst) (speedControl_trace_fp c (map ins [0..<Suc n]))
      = replicate n 1 @ [0]"
    by simp
  with out inside f32_le_20_iff show ?thesis by blast
qed

text \<open>
  Instances: the command is 100 RPM and the speed rises by 1 RPM per pass from 77 RPM, so
  \<open>n\<close> is 3 and the machine is idle after the fourth pass, where the distance is 20; and
  the command is \<open>16777215 / 33554432\<close> RPM with the speed falling from 20.5 RPM, where
  \<open>n\<close> is 0.
\<close>

theorem deadband_termination_witness:
  "map (speed_state \<circ> fst)
     (speedControl_trace_fp
        \<lparr>speed_state = 1, speed_command = 100, speed_real = 0, direction = LOW\<rparr>
        [(77, LOW, 0), (78, LOW, 0), (79, LOW, 0), (80, LOW, 0)]) = [1, 1, 1, 0]
   \<and> map (speed_state \<circ> fst)
     (speedControl_trace_fp
        \<lparr>speed_state = 1, speed_command = 16777215 / 33554432, speed_real = 0, direction = LOW\<rparr>
        [(41 / 2, LOW, 0)]) = [0]"
proof -
  let ?c = "\<lparr>speed_state = 1, speed_command = 100, speed_real = 0, direction = LOW\<rparr>"
  let ?ins = "\<lambda>k. (77 + real k, LOW, 0 :: real)"
  have s: "speed_state ?c = 1" by simp
  have r: "\<forall>k. fst (?ins k) = (if 77 \<le> speed_command ?c then 77 + real k else 77 - real k)"
    by simp
  have n: "(3 :: nat) = nat \<lceil>\<bar>77 - speed_command ?c\<bar> - (20 + 1 / 1048576)\<rceil>"
    by (simp add: ceiling_eq_iff)
  have m: "map ?ins [0..<Suc 3] = [(77, LOW, 0), (78, LOW, 0), (79, LOW, 0), (80, LOW, 0)]"
    by (simp add: upt_rec)
  have a: "map (speed_state \<circ> fst) (speedControl_trace_fp ?c (map ?ins [0..<Suc 3]))
      = replicate 3 1 @ [0]"
    using deadband_termination [of ?c ?ins 77 3, OF s r n] by blast
  let ?d = "\<lparr>speed_state = 1, speed_command = 16777215 / 33554432, speed_real = 0,
      direction = LOW\<rparr>"
  let ?jns = "\<lambda>k. (41 / 2 - real k, LOW, 0 :: real)"
  have s': "speed_state ?d = 1" by simp
  have r': "\<forall>k. fst (?jns k)
      = (if 41 / 2 \<le> speed_command ?d then 41 / 2 + real k else 41 / 2 - real k)"
    by simp
  have n': "(0 :: nat) = nat \<lceil>\<bar>41 / 2 - speed_command ?d\<bar> - (20 + 1 / 1048576)\<rceil>"
    by (simp add: ceiling_le_iff)
  have m': "map ?jns [0..<Suc 0] = [(41 / 2, LOW, 0)]" by simp
  have b: "map (speed_state \<circ> fst) (speedControl_trace_fp ?d (map ?jns [0..<Suc 0]))
      = replicate 0 1 @ [0]"
    using deadband_termination [of ?d ?jns "41 / 2" 0, OF s' r' n'] by blast
  have e3: "replicate 3 (1 :: 8 word) @ [0] = [1, 1, 1, 0]" by (simp add: numeral_3_eq_3)
  from a b show ?thesis unfolding m m' e3 by simp
qed

text \<open>
  The machine can become idle in a pass whose distance is more than 20 RPM: with a command
  of \<open>16777215 / 33554432\<close> RPM (the binary32 number just below one half) and a reading
  of 20.5 RPM the difference is a little more than 20, its rounding to binary32 is 20, and
  the pass ends in state 0.
\<close>

theorem deadband_not_exact:
  "speedControl_trace_fp
     \<lparr>speed_state = 1, speed_command = 16777215 / 33554432, speed_real = 0, direction = LOW\<rparr>
     [(41 / 2, LOW, 0)]
   = [(\<lparr>speed_state = 0, speed_command = 16777215 / 33554432, speed_real = 41 / 2,
         direction = LOW\<rparr>, [])]
   \<and> f32 (41 / 2 - 16777215 / 33554432) = 20
   \<and> \<bar>41 / 2 - 16777215 / 33554432\<bar> > (20 :: real)"
  by (simp add: speedControl_iter_fp_def Let_def f32_deadband_edge)

text \<open>
  C10. In every pass of every run, from any state, each call of \<open>cmd_speed_PWM\<close> has a
  non-negative argument, which is 0 or the magnitude of the speed command the task holds
  after the pass; and every tone that reaches the LEDC channel has a non-negative frequency.
  The sign of the command is in none of these arguments.
\<close>

theorem pwm_magnitude_only:
  assumes "(c', calls) \<in> set (speedControl_trace c ins)"
  shows "(\<forall>x. Call_cmd_speed_PWM x \<in> set calls \<longrightarrow>
            0 \<le> x \<and> (x = 0 \<or> x = \<bar>speed_command c'\<bar>))
       \<and> (\<forall>ch f. LedcWriteTone ch f \<in> set (concat (map events_of calls)) \<longrightarrow> 0 \<le> f)"
proof -
  from trace_member [OF assms] obtain c0 a d q
    where r: "(c', calls) = speedControl_iter c0 a d q" by blast
  then have c': "c' = fst (speedControl_iter c0 a d q)"
    and calls: "calls = snd (speedControl_iter c0 a d q)"
    by (metis fst_conv, metis snd_conv)
  have one: "\<forall>x. Call_cmd_speed_PWM x \<in> set calls \<longrightarrow>
            0 \<le> x \<and> (x = 0 \<or> x = \<bar>speed_command c'\<bar>)"
    unfolding c' calls using pwm_magnitude_step by blast
  have two: "\<forall>ch f. LedcWriteTone ch f \<in> set (concat (map events_of calls)) \<longrightarrow> 0 \<le> f"
  proof (intro allI impI)
    fix ch f
    assume "LedcWriteTone ch f \<in> set (concat (map events_of calls))"
    from tone_from_pwm [OF this] obtain x
      where "Call_cmd_speed_PWM x \<in> set calls" and f: "f = x / 15" by blast
    with one have "0 \<le> x" by blast
    with f show "0 \<le> f" by simp
  qed
  from one two show ?thesis by blast
qed

text \<open>
  An instance: the first pass after start-up, with the wheel at -100 RPM, the direction pin
  HIGH and a command of -300 RPM. The call carries 300 and the tone is 20 Hz.
\<close>

theorem pwm_magnitude_only_witness:
  "speedControl_trace (fst speedControl_init) [(- 100, HIGH, - 300)] =
     [(\<lparr>speed_state = 1, speed_command = - 300, speed_real = - 100, direction = HIGH\<rparr>,
       [Call_cmd_speed_PWM 300])]
   \<and> (0 :: real) \<le> 300
   \<and> concat (map events_of [Call_cmd_speed_PWM 300]) = [LedcWriteTone 0 20]"
  using pwm_magnitude_only [of
      "\<lparr>speed_state = 1, speed_command = - 300, speed_real = - 100, direction = HIGH\<rparr>"
      "[Call_cmd_speed_PWM 300]" "fst speedControl_init" "[(- 100, HIGH, - 300)]"]
  by (simp add: speedControl_init_def speedControl_iter_def sign_def Let_def cmd_speed_PWM_def)

end
